theory Spec2Isabelle
  imports Complex_Main "HOL-Library.Sublist" "HOL-Library.AList"
begin

section \<open>Shared vocabulary\<close>

text \<open>
  The scripts are Node.js programs. Strings are \<^typ>\<open>string\<close>; a thrown value is a
  \<^verbatim>\<open>js_error\<close>; a function that may throw returns \<^verbatim>\<open>js_error + 'a\<close> with
  \<^const>\<open>Inl\<close> for the throw. Every result object of the scripts carries a
  \<^verbatim>\<open>success\<close> field, which the record hierarchy below shares.
\<close>

datatype js_error =
    JsError string                  \<comment> \<open>\<^verbatim>\<open>new Error(message)\<close>\<close>
  | SystemError string              \<comment> \<open>a Node system error, by its \<^verbatim>\<open>code\<close>\<close>
  | AwsException string             \<comment> \<open>an SDK service exception, by its \<^verbatim>\<open>name\<close>\<close>

record op_result =
  success :: bool



definition newline :: string where
  "newline = [CHR 0x0A]"


subsection \<open>Paths and the file system\<close>

text \<open>
  Paths are absolute, normalised strings without a trailing separator, so that
  \<^verbatim>\<open>path.join(dir, name)\<close> only inserts the separator. A file has a content and a
  permission mode. The model has no owners or access rights: an operation fails only
  for the shape of the tree (a missing entry, a directory where a file is needed).
\<close>

definition path_join :: "string \<Rightarrow> string \<Rightarrow> string" where
  "path_join dir entry = dir @ ''/'' @ entry"

definition dirname :: "string \<Rightarrow> string" where
  "dirname p =
     (let r = dropWhile (\<lambda>c. c \<noteq> CHR ''/'') (rev p)
      in if r = [] then ''.'' else if tl r = [] then ''/'' else rev (tl r))"

datatype node = Directory | File (content: string) (mode: nat)

record world =
  cwd :: string
  tree :: "string \<rightharpoonup> node"


definition existsSync :: "world \<Rightarrow> string \<Rightarrow> bool" where
  "existsSync w p \<longleftrightarrow> tree w p \<noteq> None"




definition parentError :: "world \<Rightarrow> string \<Rightarrow> js_error option" where
  \<comment> \<open>Why an entry cannot be created at \<open>p\<close>: its parent is missing or is a file.\<close>
  "parentError w p =
     (case tree w (dirname p) of
        Some Directory \<Rightarrow> None
      | Some (File text m) \<Rightarrow> Some (SystemError ''ENOTDIR'')
      | None \<Rightarrow> Some (SystemError ''ENOENT''))"


definition writeFile :: "string \<Rightarrow> string \<Rightarrow> nat \<Rightarrow> world \<Rightarrow> js_error + world" where
  \<comment> \<open>The mode argument only applies when the file is created; an existing file keeps its mode.\<close>
  "writeFile p text createMode w =
     (case tree w p of
        Some Directory \<Rightarrow> Inl (SystemError ''EISDIR'')
      | Some (File old m) \<Rightarrow> Inr (w\<lparr>tree := (tree w)(p \<mapsto> File text m)\<rparr>)
      | None \<Rightarrow>
          (case parentError w p of
             Some error \<Rightarrow> Inl error
           | None \<Rightarrow> Inr (w\<lparr>tree := (tree w)(p \<mapsto> File text createMode)\<rparr>)))"




definition mode_0600 :: nat where
  "mode_0600 = 6 * 64"

definition mode_0666 :: nat where
  "mode_0666 = 6 * 64 + 6 * 8 + 6"

section \<open>generate-npmrc.js\<close>

definition stripProtocol :: "string \<Rightarrow> string" where
  \<comment> \<open>\<^verbatim>\<open>url.replace(/^https?:\/\//, '')\<close>\<close>
  "stripProtocol url =
     (if prefix ''https://'' url then drop 8 url
      else if prefix ''http://'' url then drop 7 url
      else url)"






definition backupTimestamp :: "string \<Rightarrow> string" where
  \<comment> \<open>\<^verbatim>\<open>new Date().toISOString().replace(/[:.]/g, '-')\<close>\<close>
  "backupTimestamp now = map (\<lambda>c. if c = CHR '':'' \<or> c = CHR ''.'' then CHR ''-'' else c) now"





section \<open>publish-packages.js\<close>


record exec_error =
  stderr :: "string option"
  message :: string
  stdout :: "string option"

datatype exec_outcome = ExecOutput string | ExecThrows exec_error

datatype dirent = Dirent (dirent_name: string) (isDirectory: bool)

text \<open>
  What the script cannot decide by itself: the random characters \<^verbatim>\<open>mkdtempSync\<close>
  appends (or its failure), whether writing the scratch file fails, what the
  \<^verbatim>\<open>npm publish\<close> child process reports, whether the final removal fails, and the
  directory listings. The child process is taken to leave the file tree of the model as
  it is.
\<close>

record publish_env =
  tmpdir :: string
  mkdtempSync :: "world \<Rightarrow> string \<Rightarrow> js_error + string"     \<comment> \<open>the random suffix\<close>
  writeFails :: "world \<Rightarrow> string \<Rightarrow> js_error option"
  execSync :: "world \<Rightarrow> string \<Rightarrow> exec_outcome"
  rmFails :: "world \<Rightarrow> string \<Rightarrow> js_error option"
  readdirSync :: "world \<Rightarrow> string \<Rightarrow> js_error + dirent list"

definition scratchContent :: "string \<Rightarrow> string \<Rightarrow> string" where
  "scratchContent registryUrl authToken =
     ''@myorg:registry='' @ registryUrl @ newline @
     ''//'' @ stripProtocol registryUrl @ ''/:_authToken='' @ authToken"

definition createTemporaryNpmrc ::
  "publish_env \<Rightarrow> string \<Rightarrow> string \<Rightarrow> world \<Rightarrow> (js_error + string) \<times> world" where
  \<comment> \<open>\<^verbatim>\<open>mkdtempSync\<close> appends its random characters to the prefix and makes the directory;
      the file is then created in it with the mode given to \<^verbatim>\<open>writeFileSync\<close>.\<close>
  "createTemporaryNpmrc env registryUrl authToken w =
     (case mkdtempSync env w (path_join (tmpdir env) ''npmrc-'') of
        Inl error \<Rightarrow> (Inl error, w)
      | Inr randomChars \<Rightarrow>
          (let tmpDir = path_join (tmpdir env) ''npmrc-'' @ randomChars;
               w1 = w\<lparr>tree := (tree w)(tmpDir \<mapsto> Directory)\<rparr>;
               npmrcPath = path_join tmpDir ''.npmrc''
           in case writeFails env w1 npmrcPath of
                Some error \<Rightarrow> (Inl error, w1)
              | None \<Rightarrow>
                  if tree w1 npmrcPath = Some Directory then (Inl (SystemError ''EISDIR''), w1)
                  else (Inr npmrcPath,
                        w1\<lparr>tree := (tree w1)(npmrcPath \<mapsto>
                              File (scratchContent registryUrl authToken) mode_0600)\<rparr>)))"








subsection \<open>The script body\<close>

record publish_results =
  successful :: "string list"
  failed :: "string list"
  skippedNames :: "string list"    \<comment> \<open>\<^verbatim>\<open>publishResults.skipped\<close>\<close>











section \<open>configure-packages.js\<close>

text \<open>
  A parsed \<^verbatim>\<open>package.json\<close>. An object is the list of its properties in insertion
  order, as \<^verbatim>\<open>JSON.parse\<close> builds it (no key twice). The text form is left to the
  platform: \<^verbatim>\<open>JSON.parse\<close> and \<^verbatim>\<open>JSON.stringify\<close> are parameters.
\<close>

datatype json =
    JNull
  | JBool bool
  | JNumber real
  | JString string
  | JArray "json list"
  | JObject "(string \<times> json) list"

record json_codec =
  parse :: "string \<Rightarrow> json option"        \<comment> \<open>\<open>None\<close>: a \<^verbatim>\<open>SyntaxError\<close>\<close>
  stringify :: "json \<Rightarrow> string"           \<comment> \<open>\<^verbatim>\<open>JSON.stringify(value, null, 2)\<close>\<close>

fun truthy :: "json \<Rightarrow> bool" where
  "truthy JNull = False"
| "truthy (JBool b) = b"
| "truthy (JNumber n) = (n \<noteq> 0)"
| "truthy (JString s) = (s \<noteq> [])"
| "truthy (JArray xs) = True"
| "truthy (JObject props) = True"

definition propertyTruthy :: "(string \<times> json) list \<Rightarrow> string \<Rightarrow> bool" where
  \<comment> \<open>\<^verbatim>\<open>if (object.key)\<close>: a missing property reads as \<^verbatim>\<open>undefined\<close>.\<close>
  "propertyTruthy props key = (case map_of props key of None \<Rightarrow> False | Some v \<Rightarrow> truthy v)"

definition updateFields :: "string \<Rightarrow> json \<Rightarrow> js_error + json" where
  \<comment> \<open>The two statements between parsing and writing. The module is strict code, so
      creating a property on a primitive or on \<^verbatim>\<open>null\<close> throws; a property set on an
      array is not serialised.\<close>
  "updateFields registryUrl packageJson =
     (case packageJson of
        JObject props \<Rightarrow>
          (let props1 = AList.update ''publishConfig''
                          (JObject [(''registry'', JString registryUrl)]) props
           in Inr (JObject (if propertyTruthy props1 ''private''
                            then AList.delete ''private'' props1 else props1)))
      | JArray xs \<Rightarrow> Inr (JArray xs)
      | _ \<Rightarrow> Inl (JsError ''TypeError''))"

definition readFileSync :: "world \<Rightarrow> string \<Rightarrow> js_error + string" where
  "readFileSync w p =
     (case tree w p of
        None \<Rightarrow> Inl (SystemError ''ENOENT'')
      | Some Directory \<Rightarrow> Inl (SystemError ''EISDIR'')
      | Some (File text m) \<Rightarrow> Inr text)"

definition updatePackageJson :: "json_codec \<Rightarrow> string \<Rightarrow> string \<Rightarrow> world \<Rightarrow> world" where
  "updatePackageJson codec packagePath registryUrl w =
     (let packageJsonPath = path_join packagePath ''package.json''
      in if \<not> existsSync w packageJsonPath then w
         else case readFileSync w packageJsonPath of
                Inl error \<Rightarrow> w
              | Inr text \<Rightarrow>
                  (case parse codec text of
                     None \<Rightarrow> w
                   | Some packageJson \<Rightarrow>
                       (case updateFields registryUrl packageJson of
                          Inl error \<Rightarrow> w
                        | Inr updated \<Rightarrow>
                            (case writeFile packageJsonPath (stringify codec updated @ newline)
                                    mode_0666 w of
                               Inl error \<Rightarrow> w
                             | Inr w' \<Rightarrow> w'))))"

section \<open>aws-client.js and create-infrastructure.js\<close>

text \<open>
  The SDK call \<^verbatim>\<open>this.client.send(command)\<close> is a parameter \<open>send\<close>: a function from
  the state of the remote service and a command to a response or an exception, and the
  next state. The client keeps a record of the commands it has sent.
\<close>

datatype command =
    CreateDomainCommand string
  | CreateRepositoryCommand string string string
  | AssociateExternalConnectionCommand string string string
  | DescribeDomainCommand string
  | DescribeRepositoryCommand string string

record repository_description =
  repositoryName :: string
  externalConnections :: "string list option"

record response =
  domain :: "string option"
  repository :: "repository_description option"

record 's aws =
  service :: 's
  sent :: "command list"

type_synonym 's sdk = "'s \<Rightarrow> command \<Rightarrow> (js_error + response) \<times> 's"

definition clientSend :: "'s sdk \<Rightarrow> command \<Rightarrow> 's aws \<Rightarrow> (js_error + response) \<times> 's aws" where
  "clientSend send cmd st =
     (case send (service st) cmd of
        (r, s') \<Rightarrow> (r, \<lparr>service = s', sent = sent st @ [cmd]\<rparr>))"

record create_result = op_result +
  createdDomain :: "string option"
  createdRepository :: "repository_description option"
  wasCreated :: "bool option"
  resultMessage :: "string option"

definition createDomain :: "'s sdk \<Rightarrow> string \<Rightarrow> 's aws \<Rightarrow> (js_error + create_result) \<times> 's aws" where
  "createDomain send domainName st =
     (case clientSend send (CreateDomainCommand domainName) st of
        (Inr response, st') \<Rightarrow>
          (Inr \<lparr>success = True, createdDomain = domain response, createdRepository = None,
                wasCreated = Some True, resultMessage = None\<rparr>, st')
      | (Inl error, st') \<Rightarrow>
          if error = AwsException ''ResourceAlreadyExistsException''
          then (Inr \<lparr>success = True, createdDomain = None, createdRepository = None,
                     wasCreated = Some False,
                     resultMessage = Some (''Domain '' @ domainName @ '' already exists'')\<rparr>, st')
          else (Inl error, st'))"

definition createRepository ::
  "'s sdk \<Rightarrow> string \<Rightarrow> string \<Rightarrow> 's aws \<Rightarrow> (js_error + create_result) \<times> 's aws" where
  "createRepository send domainName repoName st =
     (case clientSend send
             (CreateRepositoryCommand domainName repoName (''Repository for '' @ repoName)) st of
        (Inr response, st') \<Rightarrow>
          (Inr \<lparr>success = True, createdDomain = None, createdRepository = repository response,
                wasCreated = Some True, resultMessage = None\<rparr>, st')
      | (Inl error, st') \<Rightarrow>
          if error = AwsException ''ResourceAlreadyExistsException''
          then (Inr \<lparr>success = True, createdDomain = None, createdRepository = None,
                     wasCreated = Some False,
                     resultMessage = Some (''Repository '' @ repoName @ '' already exists'')\<rparr>, st')
          else (Inl error, st'))"

definition associateExternalConnection ::
  "'s sdk \<Rightarrow> string \<Rightarrow> string \<Rightarrow> string \<Rightarrow> 's aws \<Rightarrow> (js_error + create_result) \<times> 's aws" where
  "associateExternalConnection send domainName repoName externalConnection st =
     (case clientSend send
             (AssociateExternalConnectionCommand domainName repoName externalConnection) st of
        (Inr response, st') \<Rightarrow>
          (Inr \<lparr>success = True, createdDomain = None, createdRepository = repository response,
                wasCreated = None, resultMessage = None\<rparr>, st')
      | (Inl error, st') \<Rightarrow>
          if error = AwsException ''ResourceAlreadyExistsException''
          then (Inr \<lparr>success = True, createdDomain = None, createdRepository = None,
                     wasCreated = None,
                     resultMessage = Some (''External connection '' @ externalConnection @
                                  '' already associated'')\<rparr>, st')
          else (Inl error, st'))"

definition domainExists :: "'s sdk \<Rightarrow> string \<Rightarrow> 's aws \<Rightarrow> (js_error + bool) \<times> 's aws" where
  "domainExists send domainName st =
     (case clientSend send (DescribeDomainCommand domainName) st of
        (Inr response, st') \<Rightarrow> (Inr True, st')
      | (Inl error, st') \<Rightarrow>
          if error = AwsException ''ResourceNotFoundException'' then (Inr False, st')
          else (Inl error, st'))"

definition repositoryExists ::
  "'s sdk \<Rightarrow> string \<Rightarrow> string \<Rightarrow> 's aws \<Rightarrow> (js_error + bool) \<times> 's aws" where
  "repositoryExists send domainName repoName st =
     (case clientSend send (DescribeRepositoryCommand domainName repoName) st of
        (Inr response, st') \<Rightarrow> (Inr True, st')
      | (Inl error, st') \<Rightarrow>
          if error = AwsException ''ResourceNotFoundException'' then (Inr False, st')
          else (Inl error, st'))"

definition connectionsOf :: "response \<Rightarrow> string list" where
  \<comment> \<open>\<^verbatim>\<open>response.repository?.externalConnections || []\<close>\<close>
  "connectionsOf response =
     (case repository response of
        None \<Rightarrow> []
      | Some r \<Rightarrow> (case externalConnections r of None \<Rightarrow> [] | Some cs \<Rightarrow> cs))"

definition hasExternalConnection ::
  "'s sdk \<Rightarrow> string \<Rightarrow> string \<Rightarrow> string \<Rightarrow> 's aws \<Rightarrow> (js_error + bool) \<times> 's aws" where
  "hasExternalConnection send domainName repoName externalConnection st =
     (case clientSend send (DescribeRepositoryCommand domainName repoName) st of
        (Inr response, st') \<Rightarrow> (Inr (externalConnection \<in> set (connectionsOf response)), st')
      | (Inl error, st') \<Rightarrow>
          if error = AwsException ''ResourceNotFoundException'' then (Inr False, st')
          else (Inl error, st'))"

record ensure_result = op_result +
  created :: bool
  exists :: bool
  resourceName :: string
  ensuredDomain :: "string option"
  ensuredRepository :: "repository_description option"

definition alreadyThere :: "string \<Rightarrow> ensure_result" where
  "alreadyThere n = \<lparr>success = True, created = False, exists = True, resourceName = n,
                      ensuredDomain = None, ensuredRepository = None\<rparr>"

definition newlyCreated :: "string \<Rightarrow> create_result \<Rightarrow> ensure_result" where
  "newlyCreated n result = \<lparr>success = True, created = True, exists = False, resourceName = n,
                      ensuredDomain = createdDomain result,
                      ensuredRepository = createdRepository result\<rparr>"

definition ensureDomain :: "'s sdk \<Rightarrow> string \<Rightarrow> 's aws \<Rightarrow> (js_error + ensure_result) \<times> 's aws" where
  "ensureDomain send domainName st =
     (case domainExists send domainName st of
        (Inl error, st1) \<Rightarrow> (Inl error, st1)
      | (Inr found, st1) \<Rightarrow>
          if found then (Inr (alreadyThere domainName), st1)
          else (case createDomain send domainName st1 of
                  (Inl error, st2) \<Rightarrow> (Inl error, st2)
                | (Inr result, st2) \<Rightarrow>
                    if success result then (Inr (newlyCreated domainName result), st2)
                    else (Inl (JsError ''Domain creation failed without error''), st2)))"

definition ensureRepository ::
  "'s sdk \<Rightarrow> string \<Rightarrow> string \<Rightarrow> 's aws \<Rightarrow> (js_error + ensure_result) \<times> 's aws" where
  "ensureRepository send domainName repoName st =
     (case repositoryExists send domainName repoName st of
        (Inl error, st1) \<Rightarrow> (Inl error, st1)
      | (Inr found, st1) \<Rightarrow>
          if found then (Inr (alreadyThere repoName), st1)
          else (case createRepository send domainName repoName st1 of
                  (Inl error, st2) \<Rightarrow> (Inl error, st2)
                | (Inr result, st2) \<Rightarrow>
                    if success result then (Inr (newlyCreated repoName result), st2)
                    else (Inl (JsError ''Repository creation failed without error''), st2)))"

definition ensureExternalConnection ::
  "'s sdk \<Rightarrow> string \<Rightarrow> string \<Rightarrow> string \<Rightarrow> 's aws \<Rightarrow> (js_error + ensure_result) \<times> 's aws" where
  "ensureExternalConnection send domainName repoName externalConnection st =
     (case hasExternalConnection send domainName repoName externalConnection st of
        (Inl error, st1) \<Rightarrow> (Inl error, st1)
      | (Inr hasConnection, st1) \<Rightarrow>
          if hasConnection then (Inr (alreadyThere externalConnection), st1)
          else (case associateExternalConnection send domainName repoName externalConnection st1 of
                  (Inl error, st2) \<Rightarrow> (Inl error, st2)
                | (Inr result, st2) \<Rightarrow>
                    if success result then (Inr (newlyCreated externalConnection result), st2)
                    else (Inl (JsError ''External connection association failed without error''),
                          st2)))"

text \<open>
  A small in-memory registry service, used to run the operations on concrete inputs:
  the domains, and for each repository its external connections. A command listed in
  \<open>denied\<close> is refused.
\<close>

record registry =
  domains :: "string list"
  repositories :: "((string \<times> string) \<times> string list) list"
  denied :: "command list"

definition registryService :: "registry sdk" where
  "registryService s cmd =
     (if cmd \<in> set (denied s) then (Inl (AwsException ''AccessDeniedException''), s)
      else case cmd of
        DescribeDomainCommand d \<Rightarrow>
          (if d \<in> set (domains s) then (Inr \<lparr>domain = Some d, repository = None\<rparr>, s)
           else (Inl (AwsException ''ResourceNotFoundException''), s))
      | CreateDomainCommand d \<Rightarrow>
          (if d \<in> set (domains s) then (Inl (AwsException ''ConflictException''), s)
           else (Inr \<lparr>domain = Some d, repository = None\<rparr>, s\<lparr>domains := d # domains s\<rparr>))
      | DescribeRepositoryCommand d r \<Rightarrow>
          (case map_of (repositories s) (d, r) of
             None \<Rightarrow> (Inl (AwsException ''ResourceNotFoundException''), s)
           | Some cs \<Rightarrow>
               (Inr \<lparr>domain = None,
                     repository = Some \<lparr>repositoryName = r, externalConnections = Some cs\<rparr>\<rparr>, s))
      | CreateRepositoryCommand d r description \<Rightarrow>
          (if d \<notin> set (domains s) then (Inl (AwsException ''ResourceNotFoundException''), s)
           else case map_of (repositories s) (d, r) of
                  Some cs \<Rightarrow> (Inl (AwsException ''ConflictException''), s)
                | None \<Rightarrow>
                    (Inr \<lparr>domain = None,
                          repository = Some \<lparr>repositoryName = r, externalConnections = Some []\<rparr>\<rparr>,
                     s\<lparr>repositories := ((d, r), []) # repositories s\<rparr>))
      | AssociateExternalConnectionCommand d r c \<Rightarrow>
          (case map_of (repositories s) (d, r) of
             None \<Rightarrow> (Inl (AwsException ''ResourceNotFoundException''), s)
           | Some cs \<Rightarrow>
               (Inr \<lparr>domain = None,
                     repository = Some \<lparr>repositoryName = r, externalConnections = Some (c # cs)\<rparr>\<rparr>,
                s\<lparr>repositories := ((d, r), c # cs) # repositories s\<rparr>)))"

section \<open>deploy.js: the DeploymentManager\<close>

record deploy_module =
  name :: string
  path :: string

record deployment_record =
  deployedAt :: string
  gitCommit :: "string option"
  fileHash :: string
  stage :: string

text \<open>
  The loaded state is a plain object, created by \<^verbatim>\<open>JSON.parse\<close> or by the literal
  \<^verbatim>\<open>{}\<close>: a map from module names to records, its own properties, on top of the
  members that every plain object inherits from \<^verbatim>\<open>Object.prototype\<close>. The read
  \<^verbatim>\<open>previousState[moduleName]\<close> finds an own property first, an inherited member
  next, and is \<^verbatim>\<open>undefined\<close> otherwise. Every inherited member is a function or
  an object, so it is truthy, and it has neither a \<^verbatim>\<open>gitCommit\<close> nor a
  \<^verbatim>\<open>fileHash\<close>: both read \<^verbatim>\<open>undefined\<close>.
\<close>

definition objectPrototypeMembers :: "string list" where
  "objectPrototypeMembers =
     [''constructor'', ''__defineGetter__'', ''__defineSetter__'', ''hasOwnProperty'',
      ''__lookupGetter__'', ''__lookupSetter__'', ''isPrototypeOf'', ''propertyIsEnumerable'',
      ''toString'', ''valueOf'', ''__proto__'', ''toLocaleString'']"

datatype property = OwnRecord deployment_record | InheritedMember | Undefined

definition getProperty :: "(string \<rightharpoonup> deployment_record) \<Rightarrow> string \<Rightarrow> property" where
  "getProperty obj key =
     (case obj key of
        Some r \<Rightarrow> OwnRecord r
      | None \<Rightarrow> if key \<in> set objectPrototypeMembers then InheritedMember else Undefined)"

fun gitCommitOf :: "property \<Rightarrow> string option" where
  \<comment> \<open>the read \<^verbatim>\<open>previousModuleState.gitCommit\<close>; None is \<^verbatim>\<open>null\<close> or \<^verbatim>\<open>undefined\<close>\<close>
  "gitCommitOf (OwnRecord r) = gitCommit r"
| "gitCommitOf InheritedMember = None"
| "gitCommitOf Undefined = None"

fun fileHashOf :: "property \<Rightarrow> string option" where
  \<comment> \<open>the read \<^verbatim>\<open>previousModuleState.fileHash\<close>; None is \<^verbatim>\<open>undefined\<close>\<close>
  "fileHashOf (OwnRecord r) = Some (fileHash r)"
| "fileHashOf InheritedMember = None"
| "fileHashOf Undefined = None"

text \<open>
  What change detection reads from outside the manager: the current commit (or none),
  what the git commands of \<^verbatim>\<open>hasGitChanges\<close> answer for a module path and a recorded
  commit (true also when they fail), and the hash of \<^verbatim>\<open>calculateModuleHash\<close>.
\<close>

record detection =
  getCurrentGitCommit :: "string option"
  changedSince :: "string \<Rightarrow> string \<Rightarrow> bool"
  calculateModuleHash :: "string \<Rightarrow> string"

definition hasGitChanges :: "detection \<Rightarrow> string \<Rightarrow> string option \<Rightarrow> bool" where
  "hasGitChanges det modulePath lastCommit =
     (case lastCommit of
        None \<Rightarrow> True
      | Some commit \<Rightarrow> if commit = [] then True else changedSince det modulePath commit)"

record change_check =
  needed :: bool            \<comment> \<open>the field \<^verbatim>\<open>needsDeployment\<close> of the returned object\<close>
  reason :: string

definition needsDeployment ::
  "detection \<Rightarrow> string \<Rightarrow> deploy_module \<Rightarrow> (string \<rightharpoonup> deployment_record) \<Rightarrow> change_check" where
  "needsDeployment det stg m previousState =
     (let previousModuleState = getProperty previousState (name m)
      in if previousModuleState = Undefined then \<lparr>needed = True, reason = ''first-deployment''\<rparr>
         else if stg = ''prod'' then
           (let lastDeployedCommit = gitCommitOf previousModuleState
            in case getCurrentGitCommit det of
                 None \<Rightarrow> \<lparr>needed = True, reason = ''no-git''\<rparr>
               | Some currentCommit \<Rightarrow>
                   if currentCommit = [] then \<lparr>needed = True, reason = ''no-git''\<rparr>
                   else if Some currentCommit \<noteq> lastDeployedCommit then
                     (if hasGitChanges det (path m) lastDeployedCommit
                      then \<lparr>needed = True, reason = ''git-changes''\<rparr>
                      else \<lparr>needed = False, reason = ''no-git-changes''\<rparr>)
                   else \<lparr>needed = False, reason = ''same-commit''\<rparr>)
         else if Some (calculateModuleHash det (path m)) \<noteq> fileHashOf previousModuleState
              then \<lparr>needed = True, reason = ''file-changes''\<rparr>
              else \<lparr>needed = False, reason = ''no-changes''\<rparr>)"

record selection =
  shouldDeploy :: bool                 \<comment> \<open>pushed to \<^verbatim>\<open>modulesToDeploy\<close>\<close>
  givenReason :: "string option"       \<comment> \<open>the reason of the change check, when one was made\<close>

definition selectModule ::
  "detection \<Rightarrow> string \<Rightarrow> bool \<Rightarrow> deploy_module \<Rightarrow> (string \<rightharpoonup> deployment_record) \<Rightarrow> selection" where
  \<comment> \<open>One iteration of the filter loop of \<^verbatim>\<open>deployAllModules\<close>.\<close>
  "selectModule det stg forceAll m previousState =
     (if forceAll then \<lparr>shouldDeploy = True, givenReason = None\<rparr>
      else (let changeCheck = needsDeployment det stg m previousState
            in \<lparr>shouldDeploy = needed changeCheck, givenReason = Some (reason changeCheck)\<rparr>))"

definition selectModules ::
  "detection \<Rightarrow> string \<Rightarrow> bool \<Rightarrow> deploy_module list \<Rightarrow> (string \<rightharpoonup> deployment_record)
    \<Rightarrow> deploy_module list \<times> (deploy_module \<times> string) list" where
  \<comment> \<open>The loop: \<^verbatim>\<open>modulesToDeploy\<close> and \<^verbatim>\<open>skippedModules\<close>.\<close>
  "selectModules det stg forceAll modules previousState =
     (filter (\<lambda>m. shouldDeploy (selectModule det stg forceAll m previousState)) modules,
      map (\<lambda>m. (m, reason (needsDeployment det stg m previousState)))
        (filter (\<lambda>m. \<not> shouldDeploy (selectModule det stg forceAll m previousState)) modules))"

subsection \<open>The batch loop\<close>

record command_result = op_result +
  commandOutput :: "string option"   \<comment> \<open>the field \<^verbatim>\<open>output\<close>\<close>
  failure :: "string option"      \<comment> \<open>the field \<^verbatim>\<open>error\<close>\<close>

record deploy_result = op_result +
  moduleName :: string            \<comment> \<open>the field \<^verbatim>\<open>module\<close>\<close>
  deployedTo :: string            \<comment> \<open>the field \<^verbatim>\<open>stage\<close>\<close>

text \<open>
  The observable steps of the loop: a call of \<^verbatim>\<open>deployModule\<close>, the
  \<^verbatim>\<open>await Promise.all\<close> on a batch, and the pause of the given milliseconds.
\<close>

datatype event = Launch deploy_module | AwaitAll "deploy_module list" | Delay nat

record manager =
  deploymentResults :: "deploy_result list"
  events :: "event list"

type_synonym executor = "string \<Rightarrow> string \<Rightarrow> js_error + command_result"

definition deployResult :: "executor \<Rightarrow> string \<Rightarrow> deploy_module \<Rightarrow> deploy_result" where
  \<comment> \<open>The object \<^verbatim>\<open>deployModule\<close> builds, whether the command succeeds, fails or throws.\<close>
  "deployResult executeCommand stg m =
     (case executeCommand (''serverless deploy --stage '' @ stg) (path m) of
        Inr result \<Rightarrow>
          if success result then \<lparr>success = True, moduleName = name m, deployedTo = stg\<rparr>
          else \<lparr>success = False, moduleName = name m, deployedTo = stg\<rparr>
      | Inl error \<Rightarrow> \<lparr>success = False, moduleName = name m, deployedTo = stg\<rparr>)"

definition deployModule :: "executor \<Rightarrow> string \<Rightarrow> deploy_module \<Rightarrow> manager \<Rightarrow> manager" where
  "deployModule executeCommand stg m st =
     st\<lparr>deploymentResults := deploymentResults st @ [deployResult executeCommand stg m],
        events := events st @ [Launch m]\<rparr>"

definition slice :: "'a list \<Rightarrow> nat \<Rightarrow> nat \<Rightarrow> 'a list" where
  "slice xs i j = take (j - i) (drop i xs)"

definition runBatch ::
  "executor \<Rightarrow> string \<Rightarrow> nat \<Rightarrow> deploy_module list \<Rightarrow> nat \<Rightarrow> manager \<Rightarrow> manager" where
  \<comment> \<open>The body of the \<^verbatim>\<open>for\<close> loop at index \<open>i\<close>.\<close>
  "runBatch executeCommand stg concurrency modulesToDeploy i st =
     (let batch = slice modulesToDeploy i (i + concurrency);
          st1 = fold (deployModule executeCommand stg) batch st;
          st2 = st1\<lparr>events := events st1 @ [AwaitAll batch]\<rparr>
      in if i + concurrency < length modulesToDeploy
         then st2\<lparr>events := events st2 @ [Delay 3000]\<rparr>
         else st2)"

partial_function (option) batchLoop ::
  "executor \<Rightarrow> string \<Rightarrow> nat \<Rightarrow> deploy_module list \<Rightarrow> nat \<Rightarrow> manager \<Rightarrow> manager option" where
  "batchLoop executeCommand stg concurrency modulesToDeploy i st =
     (if i < length modulesToDeploy
      then batchLoop executeCommand stg concurrency modulesToDeploy (i + concurrency)
             (runBatch executeCommand stg concurrency modulesToDeploy i st)
      else Some st)"

definition deployBatches ::
  "executor \<Rightarrow> string \<Rightarrow> nat \<Rightarrow> deploy_module list \<Rightarrow> manager option" where
  "deployBatches executeCommand stg concurrency modulesToDeploy =
     batchLoop executeCommand stg concurrency modulesToDeploy 0
       \<lparr>deploymentResults = [], events = []\<rparr>"

text \<open>
  The specification's partition: consecutive batches of the given size, the last one
  possibly smaller; and the steps it asks for, with a pause between batches only.
\<close>

function batches :: "nat \<Rightarrow> 'a list \<Rightarrow> 'a list list" where
  "batches n xs = (if n = 0 \<or> xs = [] then [] else take n xs # batches n (drop n xs))"
  by pat_completeness auto
termination
  by (relation "measure (\<lambda>(n, xs). length xs)") auto

declare batches.simps [simp del]

fun batchEvents :: "deploy_module list list \<Rightarrow> event list" where
  "batchEvents [] = []"
| "batchEvents [b] = map Launch b @ [AwaitAll b]"
| "batchEvents (b # bs) = map Launch b @ [AwaitAll b, Delay 3000] @ batchEvents bs"

definition isDelay :: "event \<Rightarrow> bool" where
  "isDelay e = (case e of Delay ms \<Rightarrow> True | _ \<Rightarrow> False)"

section \<open>Vocabulary of the properties\<close>

subsection \<open>Publish order\<close>

text \<open>
  A call is classified by its package directory: the directories below
  \<^verbatim>\<open>services\<close> and \<^verbatim>\<open>utilities\<close> hold the individual packages, the two
  directories themselves the aggregates, and the root the main package.
\<close>










subsection \<open>A sample run\<close>



subsection \<open>Auxiliary notions\<close>




text \<open>A registry without resources, and the exception the client reads as absence.\<close>

definition emptyRegistry :: registry where
  "emptyRegistry = \<lparr>domains = [], repositories = [], denied = []\<rparr>"

definition notFound :: js_error where
  "notFound = AwsException ''ResourceNotFoundException''"

section \<open>Properties of the batch loop\<close>

lemma fold_deployModule:
  "fold (deployModule ex stg) b st =
     st\<lparr>deploymentResults := deploymentResults st @ map (deployResult ex stg) b,
        events := events st @ map Launch b\<rparr>"
  by (induction b arbitrary: st) (simp_all add: deployModule_def)

lemma batches_Nil: "batches c [] = []"
  by (subst batches.simps) simp

lemma batches_Cons:
  "0 < c \<Longrightarrow> xs \<noteq> [] \<Longrightarrow> batches c xs = take c xs # batches c (drop c xs)"
  by (subst batches.simps) simp

lemma batches_nil_iff: "batches c xs = [] \<longleftrightarrow> c = 0 \<or> xs = []"
  by (subst batches.simps) simp

lemma batchEvents_Cons:
  "batchEvents (b # bs) =
     map Launch b @ [AwaitAll b] @ (if bs = [] then [] else Delay 3000 # batchEvents bs)"
  by (cases bs) simp_all

lemma batchLoop_from:
  assumes "0 < c"
  shows "batchLoop ex stg c ms i st =
     Some (st\<lparr>deploymentResults := deploymentResults st @ map (deployResult ex stg) (drop i ms),
               events := events st @ batchEvents (batches c (drop i ms))\<rparr>)"
proof (induction "length ms - i" arbitrary: i st rule: less_induct)
  case less
  show ?case
  proof (cases "i < length ms")
    case False
    then show ?thesis
      by (subst batchLoop.simps) (simp add: batches_Nil)
  next
    case True
    have lt: "length ms - (i + c) < length ms - i" using True assms by arith
    have tk: "take c (drop i ms) @ drop (i + c) ms = drop i ms"
      by (metis add.commute append_take_drop_id drop_drop)
    have bd: "batches c (drop i ms) = take c (drop i ms) # batches c (drop (i + c) ms)"
      using batches_Cons[OF assms, of "drop i ms"] True by (simp add: add.commute)
    define st' where "st' = runBatch ex stg c ms i st"
    have res: "deploymentResults st' =
                 deploymentResults st @ map (deployResult ex stg) (take c (drop i ms))"
      by (simp add: st'_def runBatch_def slice_def Let_def fold_deployModule)
    have ev: "events st' =
                events st @ map Launch (take c (drop i ms)) @ [AwaitAll (take c (drop i ms))]
                 @ (if i + c < length ms then [Delay 3000] else [])"
      by (simp add: st'_def runBatch_def slice_def Let_def fold_deployModule)
    have more: "manager.more st' = manager.more st"
      by (simp add: st'_def runBatch_def slice_def Let_def fold_deployModule)
    have step: "batchLoop ex stg c ms i st = batchLoop ex stg c ms (i + c) st'"
      by (subst batchLoop.simps) (simp only: True if_True st'_def)
    have r2: "deploymentResults st' @ map (deployResult ex stg) (drop (i + c) ms)
               = deploymentResults st @ map (deployResult ex stg) (drop i ms)"
      unfolding res by (simp only: append_assoc map_append[symmetric] tk)
    have e2: "events st' @ batchEvents (batches c (drop (i + c) ms))
               = events st @ batchEvents (batches c (drop i ms))"
    proof (cases "i + c < length ms")
      case True
      then have "batches c (drop (i + c) ms) \<noteq> []"
        using assms by (simp add: batches_nil_iff)
      then show ?thesis unfolding ev bd batchEvents_Cons using True by simp
    next
      case False
      then have "batches c (drop (i + c) ms) = []" by (simp add: batches_Nil)
      then show ?thesis unfolding ev bd batchEvents_Cons using False by simp
    qed
    show ?thesis
      unfolding step less.hyps[OF lt] r2 e2
      by (rule arg_cong[where f=Some]) (simp add: manager.equality more)
  qed
qed

lemma concat_batches: "0 < c \<Longrightarrow> concat (batches c xs) = xs"
proof (induction c xs rule: batches.induct)
  case (1 n xs)
  then show ?case by (cases "xs = []") (simp_all add: batches_Nil batches_Cons)
qed

lemma batches_lengths:
  "0 < c \<Longrightarrow> b \<in> set (batches c xs) \<Longrightarrow> 1 \<le> length b \<and> length b \<le> c"
proof (induction c xs rule: batches.induct)
  case (1 n xs)
  show ?case
  proof (cases "xs = []")
    case True
    with "1.prems" show ?thesis by (simp add: batches_Nil)
  next
    case False
    with "1.prems" have "b = take n xs \<or> b \<in> set (batches n (drop n xs))"
      by (simp add: batches_Cons)
    then show ?thesis
    proof
      assume "b = take n xs"
      with False "1.prems"(1) show ?thesis by (cases xs) (auto simp: Suc_le_eq min_def)
    next
      assume "b \<in> set (batches n (drop n xs))"
      with "1.IH" "1.prems"(1) False show ?thesis by simp
    qed
  qed
qed

lemma batches_butlast_full:
  "0 < c \<Longrightarrow> b \<in> set (butlast (batches c xs)) \<Longrightarrow> length b = c"
proof (induction c xs rule: batches.induct)
  case (1 n xs)
  show ?case
  proof (cases "xs = []")
    case True
    with "1.prems" show ?thesis by (simp add: batches_Nil)
  next
    case False
    have eq: "batches n xs = take n xs # batches n (drop n xs)"
      using False "1.prems"(1) by (simp add: batches_Cons)
    show ?thesis
    proof (cases "batches n (drop n xs) = []")
      case True
      with "1.prems"(2) eq show ?thesis by simp
    next
      case nonempty: False
      then have "n < length xs" using "1.prems"(1) by (simp add: batches_nil_iff)
      with "1.prems"(2) eq nonempty "1.IH" "1.prems"(1) False show ?thesis
        by (auto simp: min_def)
    qed
  qed
qed

lemma count_delays: "length (filter isDelay (batchEvents bs)) = length bs - 1"
  by (induction bs rule: batchEvents.induct) (simp_all add: isDelay_def o_def)

lemma batchEvents_nonempty: "bs \<noteq> [] \<Longrightarrow> batchEvents bs \<noteq> []"
  by (cases bs) (simp_all add: batchEvents_Cons)

lemma last_not_delay: "batchEvents bs \<noteq> [] \<Longrightarrow> \<not> isDelay (last (batchEvents bs))"
proof (induction bs rule: batchEvents.induct)
  case (3 b c cs)
  have "batchEvents (c # cs) \<noteq> []" by (rule batchEvents_nonempty) simp
  with 3 show ?case by simp
qed (simp_all add: isDelay_def)

lemma five_as_list: "length ms = 5 \<Longrightarrow> \<exists>a b c d e. ms = [a, b, c, d, e]"
  by (auto simp: length_Suc_conv eval_nat_numeral)

lemma batches_five_two:
  assumes "length ms = 5"
  shows "map length (batches 2 ms) = [2, 2, 1]"
proof -
  from five_as_list[OF assms] obtain a b c d e where "ms = [a, b, c, d, e]" by blast
  then show ?thesis by (simp add: batches.simps)
qed

text \<open>
  C7. With a concurrency of at least one the batch loop ends, and its steps are those of
  the partition of the modules into consecutive batches of that size (the last one
  possibly smaller): every member of a batch is launched before the batch is awaited,
  every module gets a result whatever happened to the others, and a pause of 3000 ms
  follows each batch but the last, so the pauses number one less than the batches and
  the last step is never a pause. Five modules with concurrency 2 run as batches of sizes
  2, 2 and 1 with exactly two pauses.
\<close>

theorem batch_executor:
  assumes "1 \<le> concurrency"
  shows "deployBatches ex stg concurrency ms =
           Some \<lparr>deploymentResults = map (deployResult ex stg) ms,
                 events = batchEvents (batches concurrency ms)\<rparr>
       \<and> concat (batches concurrency ms) = ms
       \<and> (\<forall>b \<in> set (butlast (batches concurrency ms)). length b = concurrency)
       \<and> (\<forall>b \<in> set (batches concurrency ms). 1 \<le> length b \<and> length b \<le> concurrency)
       \<and> length (filter isDelay (batchEvents (batches concurrency ms)))
            = length (batches concurrency ms) - 1
       \<and> (batchEvents (batches concurrency ms) \<noteq> [] \<longrightarrow>
            \<not> isDelay (last (batchEvents (batches concurrency ms))))
       \<and> (length ms = 5 \<and> concurrency = 2 \<longrightarrow>
            map length (batches concurrency ms) = [2, 2, 1]
          \<and> length (filter isDelay (batchEvents (batches concurrency ms))) = 2)"
proof -
  from assms have pos: "0 < concurrency" by simp
  have run: "deployBatches ex stg concurrency ms =
           Some \<lparr>deploymentResults = map (deployResult ex stg) ms,
                 events = batchEvents (batches concurrency ms)\<rparr>"
    unfolding deployBatches_def batchLoop_from[OF pos] by simp
  have full: "\<forall>b \<in> set (butlast (batches concurrency ms)). length b = concurrency"
    using batches_butlast_full[OF pos] by blast
  have sizes: "\<forall>b \<in> set (batches concurrency ms). 1 \<le> length b \<and> length b \<le> concurrency"
    using batches_lengths[OF pos] by blast
  have five: "length ms = 5 \<and> concurrency = 2 \<longrightarrow>
            map length (batches concurrency ms) = [2, 2, 1]
          \<and> length (filter isDelay (batchEvents (batches concurrency ms))) = 2"
  proof (intro impI, elim conjE)
    assume l: "length ms = 5" and c: "concurrency = 2"
    have m: "map length (batches 2 ms) = [2, 2, 1]" by (rule batches_five_two[OF l])
    have "length (map length (batches 2 ms)) = 3" unfolding m by simp
    then have "length (batches 2 ms) = 3" by simp
    then show "map length (batches concurrency ms) = [2, 2, 1]
          \<and> length (filter isDelay (batchEvents (batches concurrency ms))) = 2"
      using m c by (simp add: count_delays)
  qed
  have lastev: "batchEvents (batches concurrency ms) \<noteq> [] \<longrightarrow>
            \<not> isDelay (last (batchEvents (batches concurrency ms)))"
    using last_not_delay by blast
  show ?thesis
    by (intro conjI run concat_batches[OF pos] full sizes count_delays lastev five)
qed

theorem batch_executor_witness:
  "(1::nat) \<le> 2 \<and>
   deployBatches (\<lambda>cmd dir. if dir = ''/w/b'' then Inl (JsError ''boom'')
                             else Inr \<lparr>success = True, commandOutput = None, failure = None\<rparr>)
     ''dev'' 2
     [\<lparr>name = ''a'', path = ''/w/a''\<rparr>, \<lparr>name = ''b'', path = ''/w/b''\<rparr>,
      \<lparr>name = ''c'', path = ''/w/c''\<rparr>, \<lparr>name = ''d'', path = ''/w/d''\<rparr>,
      \<lparr>name = ''e'', path = ''/w/e''\<rparr>]
   = Some \<lparr>deploymentResults =
             [\<lparr>success = True, moduleName = ''a'', deployedTo = ''dev''\<rparr>,
              \<lparr>success = False, moduleName = ''b'', deployedTo = ''dev''\<rparr>,
              \<lparr>success = True, moduleName = ''c'', deployedTo = ''dev''\<rparr>,
              \<lparr>success = True, moduleName = ''d'', deployedTo = ''dev''\<rparr>,
              \<lparr>success = True, moduleName = ''e'', deployedTo = ''dev''\<rparr>],
           events =
             [Launch \<lparr>name = ''a'', path = ''/w/a''\<rparr>, Launch \<lparr>name = ''b'', path = ''/w/b''\<rparr>,
              AwaitAll [\<lparr>name = ''a'', path = ''/w/a''\<rparr>, \<lparr>name = ''b'', path = ''/w/b''\<rparr>],
              Delay 3000,
              Launch \<lparr>name = ''c'', path = ''/w/c''\<rparr>, Launch \<lparr>name = ''d'', path = ''/w/d''\<rparr>,
              AwaitAll [\<lparr>name = ''c'', path = ''/w/c''\<rparr>, \<lparr>name = ''d'', path = ''/w/d''\<rparr>],
              Delay 3000,
              Launch \<lparr>name = ''e'', path = ''/w/e''\<rparr>,
              AwaitAll [\<lparr>name = ''e'', path = ''/w/e''\<rparr>]]\<rparr>"
  using batch_executor[of 2 "(\<lambda>cmd dir. if dir = ''/w/b'' then Inl (JsError ''boom'')
                             else Inr \<lparr>success = True, commandOutput = None, failure = None\<rparr>)"
     "''dev''"
     "[\<lparr>name = ''a'', path = ''/w/a''\<rparr>, \<lparr>name = ''b'', path = ''/w/b''\<rparr>,
      \<lparr>name = ''c'', path = ''/w/c''\<rparr>, \<lparr>name = ''d'', path = ''/w/d''\<rparr>,
      \<lparr>name = ''e'', path = ''/w/e''\<rparr>]"]
  by (simp add: batches.simps deployResult_def)

section \<open>Properties of change detection\<close>

lemma selectModules_force: "fst (selectModules det stg True modules previousState) = modules"
  by (simp add: selectModules_def selectModule_def)

text \<open>
  C6, as the code has it. With the force flag the filter loop selects every module
  without consulting the change check, so no reason is computed for it (the loop only
  logs that a forced deployment was requested), whatever the previous record says.
  Without the flag, a module that has no previous record in the loaded state, and whose
  name is not the name of a member that the state object inherits from
  \<^verbatim>\<open>Object.prototype\<close>, is reported by the change check as needing deployment with
  reason \<^verbatim>\<open>first-deployment\<close>, and is selected.
\<close>

theorem decision_rules:
  "selectModule det stg True m previousState = \<lparr>shouldDeploy = True, givenReason = None\<rparr>
   \<and> fst (selectModules det stg True modules previousState) = modules
   \<and> (previousState (name m) = None \<and> name m \<notin> set objectPrototypeMembers \<longrightarrow>
        needsDeployment det stg m previousState = \<lparr>needed = True, reason = ''first-deployment''\<rparr>
      \<and> selectModule det stg False m previousState =
          \<lparr>shouldDeploy = True, givenReason = Some ''first-deployment''\<rparr>)"
  by (simp add: selectModules_force selectModule_def needsDeployment_def getProperty_def)

theorem decision_rules_witness:
  "Map.empty (name \<lparr>name = ''api'', path = ''/w/api''\<rparr>) = None
   \<and> name \<lparr>name = ''api'', path = ''/w/api''\<rparr> \<notin> set objectPrototypeMembers
   \<and> needsDeployment \<lparr>getCurrentGitCommit = Some ''abc'', changedSince = (\<lambda>p c. False),
                       calculateModuleHash = (\<lambda>p. ''h'')\<rparr>
        ''prod'' \<lparr>name = ''api'', path = ''/w/api''\<rparr> Map.empty
      = \<lparr>needed = True, reason = ''first-deployment''\<rparr>"
  using decision_rules[of "\<lparr>getCurrentGitCommit = Some ''abc'', changedSince = (\<lambda>p c. False),
                       calculateModuleHash = (\<lambda>p. ''h'')\<rparr>" "''prod''"
        "\<lparr>name = ''api'', path = ''/w/api''\<rparr>" Map.empty "[]"]
  by (simp add: objectPrototypeMembers_def)

text \<open>
  The reason \<^verbatim>\<open>forced\<close> of the specification is not produced: a forced module
  with an up-to-date previous record is selected with no reason at all. And a module
  named \<^verbatim>\<open>constructor\<close> that was never deployed is not a first deployment: the
  lookup finds the inherited member, which has no hash and no commit, so the reason is
  \<^verbatim>\<open>file-changes\<close>, and \<^verbatim>\<open>git-changes\<close> in production.
\<close>

theorem forced_reason_counterexample:
  "givenReason (selectModule \<lparr>getCurrentGitCommit = Some ''abc'', changedSince = (\<lambda>p c. False),
                       calculateModuleHash = (\<lambda>p. ''h'')\<rparr>
        ''dev'' True \<lparr>name = ''api'', path = ''/w/api''\<rparr>
        (Map.empty(''api'' \<mapsto> \<lparr>deployedAt = ''2024-01-01T00:00:00.000Z'', gitCommit = Some ''abc'',
                                  fileHash = ''h'', stage = ''dev''\<rparr>)))
     \<noteq> Some ''forced''
   \<and> needsDeployment \<lparr>getCurrentGitCommit = Some ''abc'', changedSince = (\<lambda>p c. False),
                       calculateModuleHash = (\<lambda>p. ''h'')\<rparr>
        ''dev'' \<lparr>name = ''constructor'', path = ''/w/constructor''\<rparr> Map.empty
      = \<lparr>needed = True, reason = ''file-changes''\<rparr>
   \<and> needsDeployment \<lparr>getCurrentGitCommit = Some ''abc'', changedSince = (\<lambda>p c. False),
                       calculateModuleHash = (\<lambda>p. ''h'')\<rparr>
        ''prod'' \<lparr>name = ''constructor'', path = ''/w/constructor''\<rparr> Map.empty
      = \<lparr>needed = True, reason = ''git-changes''\<rparr>"
  by (simp add: selectModule_def needsDeployment_def getProperty_def objectPrototypeMembers_def
      hasGitChanges_def)

section \<open>Properties of the publish script\<close>





















section \<open>Properties of the path functions\<close>


section \<open>Properties of generate-npmrc.js\<close>

lemma no_slash_timestamp:
  "CHR ''/'' \<notin> set now \<Longrightarrow> CHR ''/'' \<notin> set (''.npmrc.backup.'' @ backupTimestamp now)"
  by (auto simp: backupTimestamp_def)




















section \<open>Properties of configure-packages.js\<close>

lemma propertyTruthy_update:
  "propertyTruthy (AList.update ''publishConfig'' v props) ''private'' = propertyTruthy props ''private''"
  by (simp add: propertyTruthy_def update_conv')

lemma updateFields_object:
  "\<exists>props'. updateFields registryUrl (JObject props) = Inr (JObject props')
     \<and> map_of props' ''publishConfig'' = Some (JObject [(''registry'', JString registryUrl)])
     \<and> map_of props' ''private''
          = (if propertyTruthy props ''private'' then None else map_of props ''private'')
     \<and> (\<forall>k. k \<noteq> ''publishConfig'' \<and> k \<noteq> ''private'' \<longrightarrow> map_of props' k = map_of props k)"
  by (simp add: updateFields_def Let_def propertyTruthy_update update_conv' delete_conv')

lemma updatePackageJson_missing:
  "\<not> existsSync w (path_join packagePath ''package.json'')
     \<Longrightarrow> updatePackageJson codec packagePath registryUrl w = w"
  by (simp add: updatePackageJson_def)

text \<open>
  C9. The claim has the \<^verbatim>\<open>private\<close> field deleted whenever it is present, as the
  comment at the deletion says. The deletion is guarded by the truth of the value, so a
  manifest with \<^verbatim>\<open>"private": false\<close> keeps the field; the update below only adds
  \<^verbatim>\<open>publishConfig\<close>.
\<close>

theorem private_false_kept:
  "updateFields ''https://r.example/npm/lib/''
     (JObject [(''name'', JString ''@myorg/auth''), (''private'', JBool False)])
   = Inr (JObject [(''name'', JString ''@myorg/auth''), (''private'', JBool False),
                   (''publishConfig'', JObject [(''registry'', JString ''https://r.example/npm/lib/'')])])"
  by (simp add: updateFields_def propertyTruthy_def)

section \<open>Properties of publishPackage\<close>

lemma cwd_createTemporaryNpmrc:
  "cwd (snd (createTemporaryNpmrc env u t w)) = cwd w"
  by (simp add: createTemporaryNpmrc_def Let_def split: sum.splits option.splits)
























section \<open>Properties of create-infrastructure.js\<close>

lemma domainExists_found:
  "send s (DescribeDomainCommand d) = (Inr r, s1) \<Longrightarrow>
   domainExists send d \<lparr>service = s, sent = history\<rparr>
     = (Inr True, \<lparr>service = s1, sent = history @ [DescribeDomainCommand d]\<rparr>)"
  by (simp add: domainExists_def clientSend_def)

lemma domainExists_missing:
  "send s (DescribeDomainCommand d) = (Inl notFound, s1) \<Longrightarrow>
   domainExists send d \<lparr>service = s, sent = history\<rparr>
     = (Inr False, \<lparr>service = s1, sent = history @ [DescribeDomainCommand d]\<rparr>)"
  by (simp add: domainExists_def clientSend_def notFound_def)

lemma ensureDomain_exists:
  "send s (DescribeDomainCommand d) = (Inr r, s1) \<Longrightarrow>
   ensureDomain send d \<lparr>service = s, sent = history\<rparr>
     = (Inr (alreadyThere d), \<lparr>service = s1, sent = history @ [DescribeDomainCommand d]\<rparr>)"
  by (simp add: ensureDomain_def domainExists_found)

lemma ensureDomain_creates:
  "send s (DescribeDomainCommand d) = (Inl notFound, s1) \<Longrightarrow>
   send s1 (CreateDomainCommand d) = (Inr r, s2) \<Longrightarrow>
   ensureDomain send d \<lparr>service = s, sent = history\<rparr>
     = (Inr (newlyCreated d \<lparr>success = True, createdDomain = domain r, createdRepository = None,
                             wasCreated = Some True, resultMessage = None\<rparr>),
        \<lparr>service = s2, sent = history @ [DescribeDomainCommand d, CreateDomainCommand d]\<rparr>)"
  by (simp add: ensureDomain_def domainExists_missing createDomain_def clientSend_def)

lemma ensureDomain_create_fails:
  "send s (DescribeDomainCommand d) = (Inl notFound, s1) \<Longrightarrow>
   send s1 (CreateDomainCommand d) = (Inl error, s2) \<Longrightarrow>
   error \<noteq> AwsException ''ResourceAlreadyExistsException'' \<Longrightarrow>
   fst (ensureDomain send d \<lparr>service = s, sent = history\<rparr>) = Inl error"
  by (simp add: ensureDomain_def domainExists_missing createDomain_def clientSend_def)

lemma ensureRepository_exists:
  "send s (DescribeRepositoryCommand d n) = (Inr r, s1) \<Longrightarrow>
   ensureRepository send d n \<lparr>service = s, sent = history\<rparr>
     = (Inr (alreadyThere n), \<lparr>service = s1, sent = history @ [DescribeRepositoryCommand d n]\<rparr>)"
  by (simp add: ensureRepository_def repositoryExists_def clientSend_def)

lemma ensureRepository_creates:
  "send s (DescribeRepositoryCommand d n) = (Inl notFound, s1) \<Longrightarrow>
   send s1 (CreateRepositoryCommand d n (''Repository for '' @ n)) = (Inr r, s2) \<Longrightarrow>
   ensureRepository send d n \<lparr>service = s, sent = history\<rparr>
     = (Inr (newlyCreated n \<lparr>success = True, createdDomain = None,
                             createdRepository = repository r,
                             wasCreated = Some True, resultMessage = None\<rparr>),
        \<lparr>service = s2, sent = history @ [DescribeRepositoryCommand d n,
                                      CreateRepositoryCommand d n (''Repository for '' @ n)]\<rparr>)"
  by (simp add: ensureRepository_def repositoryExists_def createRepository_def clientSend_def
      notFound_def)

lemma ensureRepository_create_fails:
  "send s (DescribeRepositoryCommand d n) = (Inl notFound, s1) \<Longrightarrow>
   send s1 (CreateRepositoryCommand d n (''Repository for '' @ n)) = (Inl error, s2) \<Longrightarrow>
   error \<noteq> AwsException ''ResourceAlreadyExistsException'' \<Longrightarrow>
   fst (ensureRepository send d n \<lparr>service = s, sent = history\<rparr>) = Inl error"
  by (simp add: ensureRepository_def repositoryExists_def createRepository_def clientSend_def
      notFound_def)

lemma ensureExternalConnection_exists:
  "send s (DescribeRepositoryCommand d n) = (Inr r, s1) \<Longrightarrow> c \<in> set (connectionsOf r) \<Longrightarrow>
   ensureExternalConnection send d n c \<lparr>service = s, sent = history\<rparr>
     = (Inr (alreadyThere c), \<lparr>service = s1, sent = history @ [DescribeRepositoryCommand d n]\<rparr>)"
  by (simp add: ensureExternalConnection_def hasExternalConnection_def clientSend_def)

lemma ensureExternalConnection_creates:
  "send s (DescribeRepositoryCommand d n) = (Inr r, s1) \<Longrightarrow> c \<notin> set (connectionsOf r) \<Longrightarrow>
   send s1 (AssociateExternalConnectionCommand d n c) = (Inr r2, s2) \<Longrightarrow>
   ensureExternalConnection send d n c \<lparr>service = s, sent = history\<rparr>
     = (Inr (newlyCreated c \<lparr>success = True, createdDomain = None,
                             createdRepository = repository r2,
                             wasCreated = None, resultMessage = None\<rparr>),
        \<lparr>service = s2, sent = history @ [DescribeRepositoryCommand d n,
                                      AssociateExternalConnectionCommand d n c]\<rparr>)"
  by (simp add: ensureExternalConnection_def hasExternalConnection_def
      associateExternalConnection_def clientSend_def)

lemma ensureExternalConnection_associate_fails:
  "send s (DescribeRepositoryCommand d n) = (Inr r, s1) \<Longrightarrow> c \<notin> set (connectionsOf r) \<Longrightarrow>
   send s1 (AssociateExternalConnectionCommand d n c) = (Inl error, s2) \<Longrightarrow>
   error \<noteq> AwsException ''ResourceAlreadyExistsException'' \<Longrightarrow>
   fst (ensureExternalConnection send d n c \<lparr>service = s, sent = history\<rparr>) = Inl error"
  by (simp add: ensureExternalConnection_def hasExternalConnection_def
      associateExternalConnection_def clientSend_def)

lemma ensureExternalConnection_creates_without_repository:
  "send s (DescribeRepositoryCommand d n) = (Inl notFound, s1) \<Longrightarrow>
   send s1 (AssociateExternalConnectionCommand d n c) = (Inr r2, s2) \<Longrightarrow>
   ensureExternalConnection send d n c \<lparr>service = s, sent = history\<rparr>
     = (Inr (newlyCreated c \<lparr>success = True, createdDomain = None,
                             createdRepository = repository r2,
                             wasCreated = None, resultMessage = None\<rparr>),
        \<lparr>service = s2, sent = history @ [DescribeRepositoryCommand d n,
                                      AssociateExternalConnectionCommand d n c]\<rparr>)"
  by (simp add: ensureExternalConnection_def hasExternalConnection_def
      associateExternalConnection_def clientSend_def notFound_def)

lemma ensureExternalConnection_fails_without_repository:
  "send s (DescribeRepositoryCommand d n) = (Inl notFound, s1) \<Longrightarrow>
   send s1 (AssociateExternalConnectionCommand d n c) = (Inl error, s2) \<Longrightarrow>
   error \<noteq> AwsException ''ResourceAlreadyExistsException'' \<Longrightarrow>
   fst (ensureExternalConnection send d n c \<lparr>service = s, sent = history\<rparr>) = Inl error"
  by (simp add: ensureExternalConnection_def hasExternalConnection_def
      associateExternalConnection_def clientSend_def notFound_def)

text \<open>
  C2, as the code has it. For each of the three operations: when the describe request
  finds the resource, the result is \<^verbatim>\<open>success, not created, exists\<close> and no other
  request is sent; when the resource is reported missing and the create request
  succeeds, the result is \<^verbatim>\<open>success, created, not exists\<close> after exactly these two
  requests, and a second call, answered by a service that now finds the resource, gives
  \<^verbatim>\<open>success, not created, exists\<close>. When the create request fails, with any
  exception but \<^verbatim>\<open>ResourceAlreadyExistsException\<close>, the operation returns no result
  and throws that exception. An external connection is reported missing when the
  repository is described without it, and also when the repository itself is not found;
  in both cases the association is requested, and its failure is thrown.
\<close>

theorem ensure_operations:
  "(\<forall>r s1. send s (DescribeDomainCommand d) = (Inr r, s1) \<longrightarrow>
       ensureDomain send d \<lparr>service = s, sent = history\<rparr>
         = (Inr (alreadyThere d), \<lparr>service = s1, sent = history @ [DescribeDomainCommand d]\<rparr>))
   \<and> (\<forall>s1 r s2. send s (DescribeDomainCommand d) = (Inl notFound, s1)
         \<and> send s1 (CreateDomainCommand d) = (Inr r, s2) \<longrightarrow>
       (\<exists>result. ensureDomain send d \<lparr>service = s, sent = history\<rparr>
          = (Inr (newlyCreated d result),
             \<lparr>service = s2, sent = history @ [DescribeDomainCommand d, CreateDomainCommand d]\<rparr>))
       \<and> (\<forall>r' s3. send s2 (DescribeDomainCommand d) = (Inr r', s3) \<longrightarrow>
            fst (ensureDomain send d (snd (ensureDomain send d \<lparr>service = s, sent = history\<rparr>)))
              = Inr (alreadyThere d)))
   \<and> (\<forall>r s1. send s (DescribeRepositoryCommand d n) = (Inr r, s1) \<longrightarrow>
       ensureRepository send d n \<lparr>service = s, sent = history\<rparr>
         = (Inr (alreadyThere n), \<lparr>service = s1, sent = history @ [DescribeRepositoryCommand d n]\<rparr>))
   \<and> (\<forall>s1 r s2. send s (DescribeRepositoryCommand d n) = (Inl notFound, s1)
         \<and> send s1 (CreateRepositoryCommand d n (''Repository for '' @ n)) = (Inr r, s2) \<longrightarrow>
       (\<exists>result. ensureRepository send d n \<lparr>service = s, sent = history\<rparr>
          = (Inr (newlyCreated n result),
             \<lparr>service = s2, sent = history @ [DescribeRepositoryCommand d n,
                  CreateRepositoryCommand d n (''Repository for '' @ n)]\<rparr>))
       \<and> (\<forall>r' s3. send s2 (DescribeRepositoryCommand d n) = (Inr r', s3) \<longrightarrow>
            fst (ensureRepository send d n (snd (ensureRepository send d n \<lparr>service = s, sent = history\<rparr>)))
              = Inr (alreadyThere n)))
   \<and> (\<forall>r s1. send s (DescribeRepositoryCommand d n) = (Inr r, s1) \<and> c \<in> set (connectionsOf r) \<longrightarrow>
       ensureExternalConnection send d n c \<lparr>service = s, sent = history\<rparr>
         = (Inr (alreadyThere c), \<lparr>service = s1, sent = history @ [DescribeRepositoryCommand d n]\<rparr>))
   \<and> (\<forall>r s1 r2 s2. send s (DescribeRepositoryCommand d n) = (Inr r, s1) \<and> c \<notin> set (connectionsOf r)
         \<and> send s1 (AssociateExternalConnectionCommand d n c) = (Inr r2, s2) \<longrightarrow>
       (\<exists>result. ensureExternalConnection send d n c \<lparr>service = s, sent = history\<rparr>
          = (Inr (newlyCreated c result),
             \<lparr>service = s2, sent = history @ [DescribeRepositoryCommand d n,
                  AssociateExternalConnectionCommand d n c]\<rparr>))
       \<and> (\<forall>r' s3. send s2 (DescribeRepositoryCommand d n) = (Inr r', s3)
              \<and> c \<in> set (connectionsOf r') \<longrightarrow>
            fst (ensureExternalConnection send d n c
                   (snd (ensureExternalConnection send d n c \<lparr>service = s, sent = history\<rparr>)))
              = Inr (alreadyThere c)))
   \<and> (\<forall>s1 error s2. send s (DescribeDomainCommand d) = (Inl notFound, s1)
         \<and> send s1 (CreateDomainCommand d) = (Inl error, s2)
         \<and> error \<noteq> AwsException ''ResourceAlreadyExistsException'' \<longrightarrow>
       fst (ensureDomain send d \<lparr>service = s, sent = history\<rparr>) = Inl error)
   \<and> (\<forall>s1 error s2. send s (DescribeRepositoryCommand d n) = (Inl notFound, s1)
         \<and> send s1 (CreateRepositoryCommand d n (''Repository for '' @ n)) = (Inl error, s2)
         \<and> error \<noteq> AwsException ''ResourceAlreadyExistsException'' \<longrightarrow>
       fst (ensureRepository send d n \<lparr>service = s, sent = history\<rparr>) = Inl error)
   \<and> (\<forall>r s1 error s2. send s (DescribeRepositoryCommand d n) = (Inr r, s1)
         \<and> c \<notin> set (connectionsOf r)
         \<and> send s1 (AssociateExternalConnectionCommand d n c) = (Inl error, s2)
         \<and> error \<noteq> AwsException ''ResourceAlreadyExistsException'' \<longrightarrow>
       fst (ensureExternalConnection send d n c \<lparr>service = s, sent = history\<rparr>) = Inl error)
   \<and> (\<forall>s1 r2 s2. send s (DescribeRepositoryCommand d n) = (Inl notFound, s1)
         \<and> send s1 (AssociateExternalConnectionCommand d n c) = (Inr r2, s2) \<longrightarrow>
       (\<exists>result. ensureExternalConnection send d n c \<lparr>service = s, sent = history\<rparr>
          = (Inr (newlyCreated c result),
             \<lparr>service = s2, sent = history @ [DescribeRepositoryCommand d n,
                  AssociateExternalConnectionCommand d n c]\<rparr>))
       \<and> (\<forall>r' s3. send s2 (DescribeRepositoryCommand d n) = (Inr r', s3)
              \<and> c \<in> set (connectionsOf r') \<longrightarrow>
            fst (ensureExternalConnection send d n c
                   (snd (ensureExternalConnection send d n c \<lparr>service = s, sent = history\<rparr>)))
              = Inr (alreadyThere c)))
   \<and> (\<forall>s1 error s2. send s (DescribeRepositoryCommand d n) = (Inl notFound, s1)
         \<and> send s1 (AssociateExternalConnectionCommand d n c) = (Inl error, s2)
         \<and> error \<noteq> AwsException ''ResourceAlreadyExistsException'' \<longrightarrow>
       fst (ensureExternalConnection send d n c \<lparr>service = s, sent = history\<rparr>) = Inl error)
   \<and> success (alreadyThere x) \<and> \<not> created (alreadyThere x) \<and> exists (alreadyThere x)
   \<and> success (newlyCreated x result) \<and> created (newlyCreated x result)
   \<and> \<not> exists (newlyCreated x result)"
proof -
  have fields: "success (alreadyThere x) \<and> \<not> created (alreadyThere x) \<and> exists (alreadyThere x)
   \<and> success (newlyCreated x result) \<and> created (newlyCreated x result)
   \<and> \<not> exists (newlyCreated x result)"
    by (simp add: alreadyThere_def newlyCreated_def)
  show ?thesis
    apply (intro conjI allI impI)
    subgoal by (simp add: ensureDomain_exists)
    subgoal by (auto simp: ensureDomain_creates)
    subgoal by (auto simp: ensureDomain_exists ensureDomain_creates)
    subgoal by (simp add: ensureRepository_exists)
    subgoal by (auto simp: ensureRepository_creates)
    subgoal by (auto simp: ensureRepository_exists ensureRepository_creates)
    subgoal by (auto simp: ensureExternalConnection_exists)
    subgoal by (auto simp: ensureExternalConnection_creates)
    subgoal by (auto simp: ensureExternalConnection_exists ensureExternalConnection_creates)
    subgoal by (auto simp: ensureDomain_create_fails)
    subgoal by (auto simp: ensureRepository_create_fails)
    subgoal by (auto simp: ensureExternalConnection_associate_fails)
    subgoal by (auto simp: ensureExternalConnection_creates_without_repository)
    subgoal by (auto simp: ensureExternalConnection_exists
          ensureExternalConnection_creates_without_repository)
    subgoal by (auto simp: ensureExternalConnection_fails_without_repository)
    using fields by simp_all
qed


theorem ensure_operations_witness:
  "registryService emptyRegistry (DescribeDomainCommand ''my-domain'') = (Inl notFound, emptyRegistry)
   \<and> ensureDomain registryService ''my-domain'' \<lparr>service = emptyRegistry, sent = []\<rparr>
       = (Inr (newlyCreated ''my-domain''
                 \<lparr>success = True, createdDomain = Some ''my-domain'', createdRepository = None,
                  wasCreated = Some True, resultMessage = None\<rparr>),
          \<lparr>service = emptyRegistry\<lparr>domains := [''my-domain'']\<rparr>,
           sent = [DescribeDomainCommand ''my-domain'', CreateDomainCommand ''my-domain'']\<rparr>)
   \<and> fst (ensureDomain registryService ''my-domain''
            (snd (ensureDomain registryService ''my-domain'' \<lparr>service = emptyRegistry, sent = []\<rparr>)))
       = Inr (alreadyThere ''my-domain'')"
proof -
  have h1: "registryService emptyRegistry (DescribeDomainCommand ''my-domain'')
              = (Inl notFound, emptyRegistry)"
    by (simp add: registryService_def emptyRegistry_def notFound_def)
  have h2: "registryService emptyRegistry (CreateDomainCommand ''my-domain'')
              = (Inr \<lparr>domain = Some ''my-domain'', repository = None\<rparr>,
                 emptyRegistry\<lparr>domains := [''my-domain'']\<rparr>)"
    by (simp add: registryService_def emptyRegistry_def)
  have h3: "registryService (emptyRegistry\<lparr>domains := [''my-domain'']\<rparr>)
              (DescribeDomainCommand ''my-domain'')
              = (Inr \<lparr>domain = Some ''my-domain'', repository = None\<rparr>,
                 emptyRegistry\<lparr>domains := [''my-domain'']\<rparr>)"
    by (simp add: registryService_def emptyRegistry_def)
  have run: "ensureDomain registryService ''my-domain'' \<lparr>service = emptyRegistry, sent = []\<rparr>
       = (Inr (newlyCreated ''my-domain''
                 \<lparr>success = True, createdDomain = Some ''my-domain'', createdRepository = None,
                  wasCreated = Some True, resultMessage = None\<rparr>),
          \<lparr>service = emptyRegistry\<lparr>domains := [''my-domain'']\<rparr>,
           sent = [DescribeDomainCommand ''my-domain'', CreateDomainCommand ''my-domain'']\<rparr>)"
    using ensureDomain_creates[where send = registryService and s = emptyRegistry
        and d = "''my-domain''" and history = "[]", OF h1 h2] by simp
  have "fst (ensureDomain registryService ''my-domain''
            (snd (ensureDomain registryService ''my-domain'' \<lparr>service = emptyRegistry, sent = []\<rparr>)))
       = Inr (alreadyThere ''my-domain'')"
    by (rule ensure_operations[where send = registryService and s = emptyRegistry
          and d = "''my-domain''" and history = "[]",
          THEN conjunct2, THEN conjunct1, rule_format, OF conjI[OF h1 h2],
          THEN conjunct2, rule_format, OF h3])
  with h1 run show ?thesis by simp
qed

text \<open>
  A domain that does not exist and that the service refuses to create: the operation
  creates nothing and returns no result, it throws the refusal.
\<close>

theorem creation_refused_counterexample:
  "fst (ensureDomain registryService ''my-domain''
         \<lparr>service = \<lparr>domains = [], repositories = [],
                      denied = [CreateDomainCommand ''my-domain'']\<rparr>,
          sent = []\<rparr>)
   = Inl (AwsException ''AccessDeniedException'')"
  by (simp add: ensureDomain_def domainExists_def createDomain_def clientSend_def
      registryService_def)

section \<open>The sample run\<close>




























end
